theory Spec2Isabelle
  imports Complex_Main
begin

section \<open>The iron borrowing ledger of the hostel management backend\<close>

text \<open>
  The repository holds the ledger twice. \<^verbatim>\<open>database.js\<close> has the class
  \<^verbatim>\<open>DatabaseManager\<close> with \<^verbatim>\<open>borrowIron\<close> and \<^verbatim>\<open>returnIron\<close>, and the
  router (\<^verbatim>\<open>routes/index.js\<close>) calls them from its three iron routes. The standalone
  server (\<^verbatim>\<open>app.post('/api/iron-borrowing/...')\<close>) keeps its own array and does the
  same work inline. Both are embedded here, each from its own source text.

  Modelling decisions, all of them about what lies around the ledger:
  \<^item> A JavaScript value is a \<open>jsval\<close>. A finite number is an integer (HOL \<open>int\<close>);
    fractions, objects and arrays are not values of the model. An integer below
    \<open>2 ^ 53\<close> in magnitude is a double, and on these the coercions are defined here. Where
    a coercion leaves them (a number of \<open>2 ^ 53\<close> or more, a numeral string of that size,
    a string that is a numeral with a fraction or an exponent or no numeral at all), its
    result is what the JavaScript engine gives: the engine is the parameter \<open>E\<close> of
    every function that coerces, and every statement below holds for every engine.
  \<^item> A string is a list of 8-bit characters, one per UTF-16 code unit below 256.
  \<^item> A handler runs to completion at one reading of the clock: \<^verbatim>\<open>new Date()\<close> and
    \<^verbatim>\<open>Date.now()\<close> inside one call both give the parameter \<open>now\<close> (milliseconds), a
    time value a \<^verbatim>\<open>Date\<close> can hold. Time passes between calls, as a step of its own.
  \<^item> \<^verbatim>\<open>saveData\<close> serialises the array to a file and catches every error of the
    write; it never assigns to the array, so it does not appear in the state.
  \<^item> The handlers are modelled after \<^verbatim>\<open>authenticateToken\<close> has let the request
    through. No statement of a handler throws on the values of the model, so the
    \<^verbatim>\<open>catch\<close> branches (status 500) are unreachable and left out.
\<close>

subsection \<open>JavaScript values and the coercions the handlers apply\<close>

text \<open>\<open>JInfinity neg\<close> is \<^verbatim>\<open>-Infinity\<close> when \<open>neg\<close> holds and \<^verbatim>\<open>Infinity\<close> otherwise.\<close>

datatype jsval =
    JUndefined
  | JNull
  | JBool bool
  | JNum int
  | JNaN
  | JInfinity bool
  | JStr string
  | JDate int
  | JInvalidDate

text \<open>Truthiness, as \<^verbatim>\<open>!x\<close> and \<^verbatim>\<open>x || y\<close> test it.\<close>

fun truthy :: "jsval \<Rightarrow> bool" where
  "truthy JUndefined = False"
| "truthy JNull = False"
| "truthy (JBool b) = b"
| "truthy (JNum n) = (n \<noteq> 0)"
| "truthy JNaN = False"
| "truthy (JInfinity neg) = True"
| "truthy (JStr s) = (s \<noteq> [])"
| "truthy (JDate t) = True"
| "truthy JInvalidDate = True"

definition js_or :: "jsval \<Rightarrow> jsval \<Rightarrow> jsval" where
  "js_or a b = (if truthy a then a else b)"

text \<open>
  The part of the engine that is not defined here. \<open>ecma_parseInt E v\<close> is the result of
  \<^verbatim>\<open>parseInt(v)\<close> for a number \<open>v\<close> of \<open>2 ^ 53\<close> or more in magnitude (from \<^verbatim>\<open>1e21\<close> on its
  string is in exponent notation and the result is its first digit) and for a string
  whose digits make such a number (the result is rounded to a double): \<open>Some n\<close> for the
  finite result \<open>n\<close>, \<open>None\<close> for an infinite one. \<open>ecma_date E now v\<close> is the time value of
  \<^verbatim>\<open>new Date(now + v * 60 * 60 * 1000)\<close> where \<^verbatim>\<open>ToNumber(v)\<close> is not defined here, \<open>None\<close>
  for an invalid date.
\<close>

record engine =
  ecma_parseInt :: "jsval \<Rightarrow> int option"
  ecma_date :: "int \<Rightarrow> jsval \<Rightarrow> int option"

text \<open>The integers every one of which is a double: those below \<open>2 ^ 53\<close> in magnitude.\<close>

definition safe_integer :: "int \<Rightarrow> bool" where
  "safe_integer n = (\<bar>n\<bar> < 9007199254740992)"

text \<open>
  White space as \<^verbatim>\<open>parseInt\<close>, \<^verbatim>\<open>ToNumber\<close> and \<^verbatim>\<open>String.prototype.trim\<close> strip it: TAB,
  LF, VT, FF, CR, SP and NBSP are the white space and line terminator code units below
  256.
\<close>

definition is_ws :: "char \<Rightarrow> bool" where
  "is_ws c = (of_char c \<in> {9, 10, 11, 12, 13, 32, 160 :: nat})"

definition digit_of :: "char \<Rightarrow> nat option" where
  "digit_of c =
     (let n = (of_char c :: nat) in
      if 48 \<le> n \<and> n \<le> 57 then Some (n - 48)
      else if 97 \<le> n \<and> n \<le> 122 then Some (n - 87)
      else if 65 \<le> n \<and> n \<le> 90 then Some (n - 55)
      else None)"

definition is_digit :: "nat \<Rightarrow> char \<Rightarrow> bool" where
  "is_digit radix c = (case digit_of c of None \<Rightarrow> False | Some d \<Rightarrow> d < radix)"

definition digits_value :: "nat \<Rightarrow> string \<Rightarrow> int" where
  "digits_value radix ds =
     foldl (\<lambda>a c. a * int radix + int (case digit_of c of None \<Rightarrow> 0 | Some d \<Rightarrow> d)) 0 ds"

text \<open>
  \<^verbatim>\<open>parseInt(string)\<close> with no radix: leading white space is dropped, then a sign, then a
  \<^verbatim>\<open>0x\<close> or \<^verbatim>\<open>0X\<close> prefix (which selects radix 16); the longest prefix of digits is the
  value, and no digit at all gives \<^verbatim>\<open>NaN\<close>. A value below \<open>2 ^ 53\<close> is the result as it
  is; a larger one is rounded by the engine.
\<close>

definition parseInt_string :: "engine \<Rightarrow> string \<Rightarrow> jsval" where
  "parseInt_string E s =
     (let s1 = dropWhile is_ws s;
          neg = (take 1 s1 = ''-'');
          s2 = (if take 1 s1 = ''-'' \<or> take 1 s1 = ''+'' then drop 1 s1 else s1);
          hex = (take 2 s2 = ''0x'' \<or> take 2 s2 = ''0X'');
          radix = (if hex then 16 else 10);
          s3 = (if hex then drop 2 s2 else s2);
          ds = takeWhile (is_digit radix) s3
      in if ds = [] then JNaN
         else if safe_integer (digits_value radix ds)
         then JNum ((if neg then - 1 else 1) * digits_value radix ds)
         else (case ecma_parseInt E (JStr s) of
                 Some n \<Rightarrow> JNum n
               | None \<Rightarrow> JInfinity neg))"

text \<open>
  \<^verbatim>\<open>parseInt(x)\<close> parses the string of \<open>x\<close>. The string of an integer below \<open>2 ^ 53\<close> is
  its decimal numeral, which parses back to it; a larger number is left to the engine.
  The strings \<^verbatim>\<open>undefined\<close>, \<^verbatim>\<open>null\<close>, \<^verbatim>\<open>true\<close>, \<^verbatim>\<open>false\<close>, \<^verbatim>\<open>NaN\<close>, \<^verbatim>\<open>Infinity\<close>,
  \<^verbatim>\<open>-Infinity\<close>, \<^verbatim>\<open>Invalid Date\<close> and the string of a date (it starts with the name of a
  weekday) begin with no digit.
\<close>

fun parseInt :: "engine \<Rightarrow> jsval \<Rightarrow> jsval" where
  "parseInt E (JNum n) =
     (if safe_integer n then JNum n
      else (case ecma_parseInt E (JNum n) of
              Some k \<Rightarrow> JNum k
            | None \<Rightarrow> JInfinity (n < 0)))"
| "parseInt E (JStr s) = parseInt_string E s"
| "parseInt E JUndefined = JNaN"
| "parseInt E JNull = JNaN"
| "parseInt E (JBool b) = JNaN"
| "parseInt E JNaN = JNaN"
| "parseInt E (JInfinity neg) = JNaN"
| "parseInt E (JDate t) = JNaN"
| "parseInt E JInvalidDate = JNaN"

text \<open>
  \<^verbatim>\<open>ToNumber\<close>, as the operator \<^verbatim>\<open>*\<close> applies it, where its result is a number of the
  model; \<open>None\<close> where it is not defined here. A string is trimmed; the empty string is
  0, a numeral with the prefix \<^verbatim>\<open>0x\<close>, \<^verbatim>\<open>0o\<close> or \<^verbatim>\<open>0b\<close> is read in its radix and a
  (signed) decimal numeral is its value, each when below \<open>2 ^ 53\<close>. Every other string is
  left to the engine.
\<close>

definition trim :: "string \<Rightarrow> string" where
  "trim s = rev (dropWhile is_ws (rev (dropWhile is_ws s)))"

definition radix_literal :: "nat \<Rightarrow> string \<Rightarrow> int option" where
  "radix_literal radix ds =
     (if ds \<noteq> [] \<and> list_all (is_digit radix) ds \<and> safe_integer (digits_value radix ds)
      then Some (digits_value radix ds) else None)"

definition toNumber_string :: "string \<Rightarrow> jsval option" where
  "toNumber_string s =
     (let s1 = trim s;
          neg = (take 1 s1 = ''-'');
          s2 = (if take 1 s1 = ''-'' \<or> take 1 s1 = ''+'' then drop 1 s1 else s1)
      in if s1 = [] then Some (JNum 0)
         else if take 2 s1 = ''0x'' \<or> take 2 s1 = ''0X''
         then map_option JNum (radix_literal 16 (drop 2 s1))
         else if take 2 s1 = ''0o'' \<or> take 2 s1 = ''0O''
         then map_option JNum (radix_literal 8 (drop 2 s1))
         else if take 2 s1 = ''0b'' \<or> take 2 s1 = ''0B''
         then map_option JNum (radix_literal 2 (drop 2 s1))
         else map_option (\<lambda>n. JNum ((if neg then - 1 else 1) * n)) (radix_literal 10 s2))"

fun toNumber :: "jsval \<Rightarrow> jsval option" where
  "toNumber JUndefined = Some JNaN"
| "toNumber JNull = Some (JNum 0)"
| "toNumber (JBool b) = Some (JNum (if b then 1 else 0))"
| "toNumber (JNum n) = Some (JNum n)"
| "toNumber JNaN = Some JNaN"
| "toNumber (JInfinity neg) = Some (JInfinity neg)"
| "toNumber (JStr s) = toNumber_string s"
| "toNumber (JDate t) = Some (JNum t)"
| "toNumber JInvalidDate = Some JNaN"

text \<open>
  \<^verbatim>\<open>new Date(t)\<close> for a number \<open>t\<close>: a date at that time value when it is at most
  8.64e15 in magnitude, an invalid date beyond.
\<close>

definition valid_time :: "int \<Rightarrow> bool" where
  "valid_time t = (\<bar>t\<bar> \<le> 8640000000000000)"

definition new_Date :: "int \<Rightarrow> jsval" where
  "new_Date t = (if valid_time t then JDate t else JInvalidDate)"

text \<open>
  \<^verbatim>\<open>new Date(Date.now() + h * 60 * 60 * 1000)\<close> for an integer \<open>h\<close> and a clock reading
  \<open>now\<close> (a time value, so at most 8.64e15 in magnitude). The engine computes the
  products and the sum in doubles, this definition in the integers. They agree: a
  result that \<open>new_Date\<close> accepts is below \<open>2 ^ 53\<close>, and then so are \<open>h * 60\<close> and
  \<open>h * 3600\<close>, while \<open>h * 3600000\<close>, a multiple of 128, is below \<open>2 ^ 54\<close>, so that every
  intermediate value is a double and nothing is rounded; and when the exact result is
  out of range, rounding (which is monotone) does not bring it back into range.
\<close>

definition date_after :: "int \<Rightarrow> int \<Rightarrow> jsval" where
  "date_after now h = new_Date (now + h * 60 * 60 * 1000)"

text \<open>
  The expression \<^verbatim>\<open>new Date(Date.now() + (d || 4) * 60 * 60 * 1000)\<close>, which both
  ledgers use for \<^verbatim>\<open>returnBy\<close>. \<^verbatim>\<open>NaN\<close> and the infinities give an invalid date.
\<close>

definition returnBy_date :: "engine \<Rightarrow> int \<Rightarrow> jsval \<Rightarrow> jsval" where
  "returnBy_date E now d =
     (case toNumber (js_or d (JNum 4)) of
        Some (JNum h) \<Rightarrow> date_after now h
      | Some _ \<Rightarrow> JInvalidDate
      | None \<Rightarrow>
          (case ecma_date E now (js_or d (JNum 4)) of
             Some t \<Rightarrow> new_Date t
           | None \<Rightarrow> JInvalidDate))"

subsection \<open>The irons\<close>

record iron =
  ironId :: int
  available :: bool
  borrowedBy :: jsval
  borrowedAt :: jsval
  returnBy :: jsval
  room :: jsval

text \<open>
  \<^verbatim>\<open>irons.find(i => i.ironId === ironId)\<close>: the first iron whose number is strictly
  equal to the argument (\<^verbatim>\<open>NaN\<close> and every non-number are equal to no number).
\<close>

definition find_iron :: "jsval \<Rightarrow> iron list \<Rightarrow> iron option" where
  "find_iron v db = List.find (\<lambda>i. JNum (ironId i) = v) db"

text \<open>
  \<^verbatim>\<open>find\<close> returns the object that sits in the array, and the handlers assign to its
  fields: the array then holds the changed object at the place of the first match.
\<close>

fun assign_found :: "jsval \<Rightarrow> iron \<Rightarrow> iron list \<Rightarrow> iron list" where
  "assign_found v new [] = []"
| "assign_found v new (i # db) =
     (if JNum (ironId i) = v then new # db else i # assign_found v new db)"

subsection \<open>\<^verbatim>\<open>DatabaseManager.borrowIron\<close> and \<^verbatim>\<open>returnIron\<close> (database.js)\<close>

record borrowerData =
  bd_borrowerName :: jsval
  bd_room :: jsval
  bd_duration :: jsval

text \<open>
  The result is the value of \<^verbatim>\<open>iron\<close> at \<^verbatim>\<open>return iron\<close> (\<open>None\<close> for \<^verbatim>\<open>undefined\<close>)
  and the array afterwards. The returned object is the one in the array, so after the
  assignments the caller sees the changed fields.
\<close>

definition borrowIron :: "engine \<Rightarrow> int \<Rightarrow> jsval \<Rightarrow> borrowerData \<Rightarrow> iron list \<Rightarrow> iron option \<times> iron list" where
  "borrowIron E now ironId' bd db =
     (case find_iron ironId' db of
        None \<Rightarrow> (None, db)
      | Some iron \<Rightarrow>
          if available iron then
            (let iron' = iron\<lparr>available := False,
                               borrowedBy := bd_borrowerName bd,
                               borrowedAt := JDate now,
                               returnBy := returnBy_date E now (bd_duration bd),
                               room := bd_room bd\<rparr>
             in (Some iron', assign_found ironId' iron' db))
          else (Some iron, db))"

definition returnIron :: "jsval \<Rightarrow> iron list \<Rightarrow> iron option \<times> iron list" where
  "returnIron ironId' db =
     (case find_iron ironId' db of
        None \<Rightarrow> (None, db)
      | Some iron \<Rightarrow>
          if \<not> available iron then
            (let iron' = iron\<lparr>available := True,
                               borrowedBy := JNull,
                               borrowedAt := JNull,
                               returnBy := JNull,
                               room := JNull\<rparr>
             in (Some iron', assign_found ironId' iron' db))
          else (Some iron, db))"

subsection \<open>The router's iron routes (routes/index.js over database.js)\<close>

text \<open>
  The body of a request, as \<^verbatim>\<open>const { ironId, borrowerName, room, duration } = req.body\<close>
  reads it; a field the request does not carry is \<open>JUndefined\<close>.
\<close>

record body =
  req_ironId :: jsval
  req_borrowerName :: jsval
  req_room :: jsval
  req_duration :: jsval

text \<open>
  The router installs \<^verbatim>\<open>sanitizeInput\<close> before every route: each string of the body
  loses its \<^verbatim>\<open><\<close> and \<^verbatim>\<open>>\<close> characters and is trimmed.
\<close>

definition sanitizeString :: "jsval \<Rightarrow> jsval" where
  "sanitizeString v =
     (case v of
        JStr s \<Rightarrow> JStr (trim (filter (\<lambda>c. c \<noteq> CHR ''<'' \<and> c \<noteq> CHR ''>'') s))
      | _ \<Rightarrow> v)"

definition sanitizeInput :: "body \<Rightarrow> body" where
  "sanitizeInput b =
     \<lparr>req_ironId = sanitizeString (req_ironId b),
      req_borrowerName = sanitizeString (req_borrowerName b),
      req_room = sanitizeString (req_room b),
      req_duration = sanitizeString (req_duration b)\<rparr>"

text \<open>\<^verbatim>\<open>res.apiSuccess(data, message)\<close> and \<^verbatim>\<open>res.apiError(message, statusCode)\<close>.\<close>

datatype 'a api_response =
    apiSuccess 'a string
  | apiError string nat

record summary =
  sum_total :: nat
  sum_available :: nat
  sum_borrowed :: nat
  sum_irons :: "iron list"

text \<open>\<^verbatim>\<open>router.get('/iron-borrowing')\<close>\<close>

definition iron_summary :: "iron list \<Rightarrow> summary" where
  "iron_summary irons =
     \<lparr>sum_total = length irons,
      sum_available = length (filter (\<lambda>i. available i) irons),
      sum_borrowed = length (filter (\<lambda>i. \<not> available i) irons),
      sum_irons = irons\<rparr>"

definition router_get_iron_borrowing :: "iron list \<Rightarrow> summary api_response \<times> iron list" where
  "router_get_iron_borrowing db =
     (apiSuccess (iron_summary db) ''Iron borrowing status retrieved successfully'', db)"

text \<open>\<^verbatim>\<open>router.post('/iron-borrowing/borrow')\<close>, on the body the handler receives.\<close>

definition borrow_handler :: "engine \<Rightarrow> int \<Rightarrow> body \<Rightarrow> iron list \<Rightarrow> iron api_response \<times> iron list" where
  "borrow_handler E now b db =
     (if \<not> truthy (req_ironId b) \<or> \<not> truthy (req_borrowerName b)
      then (apiError ''Iron ID and borrower name are required'' 400, db)
      else
        (case borrowIron E now (parseInt E (req_ironId b))
                \<lparr>bd_borrowerName = req_borrowerName b,
                 bd_room = js_or (req_room b) (JStr []),
                 bd_duration = js_or (parseInt E (req_duration b)) (JNum 4)\<rparr> db of
           (None, db') \<Rightarrow> (apiError ''Iron not found'' 404, db')
         | (Some iron, db') \<Rightarrow>
             if \<not> available iron then (apiError ''Iron is already borrowed'' 400, db')
             else (apiSuccess iron ''Iron borrowed successfully'', db')))"

definition router_post_borrow :: "engine \<Rightarrow> int \<Rightarrow> body \<Rightarrow> iron list \<Rightarrow> iron api_response \<times> iron list" where
  "router_post_borrow E now b db = borrow_handler E now (sanitizeInput b) db"

text \<open>\<^verbatim>\<open>router.post('/iron-borrowing/return')\<close>\<close>

definition return_handler :: "engine \<Rightarrow> body \<Rightarrow> iron list \<Rightarrow> iron api_response \<times> iron list" where
  "return_handler E b db =
     (if \<not> truthy (req_ironId b)
      then (apiError ''Iron ID is required'' 400, db)
      else
        (case returnIron (parseInt E (req_ironId b)) db of
           (None, db') \<Rightarrow> (apiError ''Iron not found'' 404, db')
         | (Some iron, db') \<Rightarrow> (apiSuccess iron ''Iron returned successfully'', db')))"

definition router_post_return :: "engine \<Rightarrow> body \<Rightarrow> iron list \<Rightarrow> iron api_response \<times> iron list" where
  "router_post_return E b db = return_handler E (sanitizeInput b) db"

subsection \<open>The standalone server's iron routes\<close>

text \<open>
  \<^verbatim>\<open>res.status(c).json({ error })\<close>, \<^verbatim>\<open>res.json({ success: true, message, iron })\<close> and
  \<^verbatim>\<open>res.json({ success: true, irons })\<close>.
\<close>

datatype app_response =
    json_error nat string
  | json_iron string iron
  | json_irons "iron list"

text \<open>\<^verbatim>\<open>app.get('/api/iron-borrowing')\<close>\<close>

definition app_get_iron_borrowing :: "iron list \<Rightarrow> app_response \<times> iron list" where
  "app_get_iron_borrowing db = (json_irons db, db)"

text \<open>\<^verbatim>\<open>app.post('/api/iron-borrowing/borrow')\<close>\<close>

definition app_post_borrow :: "engine \<Rightarrow> int \<Rightarrow> body \<Rightarrow> iron list \<Rightarrow> app_response \<times> iron list" where
  "app_post_borrow E now b db =
     (if \<not> truthy (req_ironId b) \<or> \<not> truthy (req_borrowerName b)
      then (json_error 400 ''Iron ID and borrower name are required'', db)
      else
        (case find_iron (parseInt E (req_ironId b)) db of
           None \<Rightarrow> (json_error 404 ''Iron not found'', db)
         | Some iron \<Rightarrow>
             if \<not> available iron then (json_error 400 ''Iron is already borrowed'', db)
             else
               (let iron' = iron\<lparr>available := False,
                                  borrowedBy := req_borrowerName b,
                                  borrowedAt := JDate now,
                                  returnBy := returnBy_date E now (req_duration b),
                                  room := req_room b\<rparr>
                in (json_iron ''Iron borrowed successfully'' iron',
                    assign_found (parseInt E (req_ironId b)) iron' db))))"

text \<open>\<^verbatim>\<open>app.post('/api/iron-borrowing/return')\<close>\<close>

definition app_post_return :: "engine \<Rightarrow> body \<Rightarrow> iron list \<Rightarrow> app_response \<times> iron list" where
  "app_post_return E b db =
     (if \<not> truthy (req_ironId b)
      then (json_error 400 ''Iron ID is required'', db)
      else
        (case find_iron (parseInt E (req_ironId b)) db of
           None \<Rightarrow> (json_error 404 ''Iron not found'', db)
         | Some iron \<Rightarrow>
             if available iron then (json_error 400 ''Iron is not currently borrowed'', db)
             else
               (let iron' = iron\<lparr>available := True,
                                  borrowedBy := JNull,
                                  borrowedAt := JNull,
                                  returnBy := JNull,
                                  room := JNull\<rparr>
                in (json_iron ''Iron returned successfully'' iron',
                    assign_found (parseInt E (req_ironId b)) iron' db))))"

subsection \<open>Provisioning\<close>

text \<open>The decimal numeral of an integer, as a template literal prints it.\<close>

fun decimal_nat :: "nat \<Rightarrow> string" where
  "decimal_nat n =
     (if n < 10 then [char_of (48 + n)]
      else decimal_nat (n div 10) @ [char_of (48 + n mod 10)])"

definition decimal :: "int \<Rightarrow> string" where
  "decimal i = (if i < 0 then ''-'' @ decimal_nat (nat (- i)) else decimal_nat (nat i))"

text \<open>
  \<^verbatim>\<open>getDefaultIrons\<close> (database.js) draws every field of every iron with a call of
  \<^verbatim>\<open>Math.random()\<close> of its own. The results of the successive calls are the parameter
  \<open>rnd\<close> (call number \<open>k\<close> gives \<open>rnd k\<close>, a number in [0, 1)); \<open>default_iron\<close> is the object
  literal of one turn of the loop, with the number of the next call.
\<close>

definition default_iron :: "int \<Rightarrow> (nat \<Rightarrow> rat) \<Rightarrow> nat \<Rightarrow> int \<Rightarrow> iron \<times> nat" where
  "default_iron now rnd k i =
     (let a = (rnd k > 3 / 10);
          b = (if rnd (k + 1) > 3 / 10 then JNull else JStr (''Student '' @ decimal i));
          t = (if rnd (k + 2) > 3 / 10 then JNull else JDate now);
          rb = (if rnd (k + 3) > 3 / 10 then JNull else new_Date (now + 4 * 60 * 60 * 1000))
      in if rnd (k + 4) > 3 / 10
         then (\<lparr>ironId = i, available = a, borrowedBy = b, borrowedAt = t, returnBy = rb,
                room = JNull\<rparr>, k + 5)
         else (\<lparr>ironId = i, available = a, borrowedBy = b, borrowedAt = t, returnBy = rb,
                room = JStr (decimal (\<lfloor>rnd (k + 5) * 3\<rfloor> + 1) @ ''0'' @
                             decimal (\<lfloor>rnd (k + 6) * 9\<rfloor> + 1))\<rparr>, k + 7))"

function getDefaultIrons_loop :: "int \<Rightarrow> (nat \<Rightarrow> rat) \<Rightarrow> nat \<Rightarrow> int \<Rightarrow> iron list \<Rightarrow> iron list" where
  "getDefaultIrons_loop now rnd k i irons =
     (if i \<le> 20
      then (case default_iron now rnd k i of
              (x, k') \<Rightarrow> getDefaultIrons_loop now rnd k' (i + 1) (irons @ [x]))
      else irons)"
  by pat_completeness auto
termination
  by (relation "measure (\<lambda>(now, rnd, k, i, irons). nat (21 - i))") auto

definition getDefaultIrons :: "int \<Rightarrow> (nat \<Rightarrow> rat) \<Rightarrow> iron list" where
  "getDefaultIrons now rnd = getDefaultIrons_loop now rnd 0 1 []"

text \<open>
  The array literal \<^verbatim>\<open>database.ironBorrowing\<close> of the standalone server. Its objects
  have no \<^verbatim>\<open>room\<close> property, so reading it gives \<^verbatim>\<open>undefined\<close>.
\<close>

definition app_ironBorrowing :: "int \<Rightarrow> iron list" where
  "app_ironBorrowing now =
     [\<lparr>ironId = 1, available = True, borrowedBy = JNull, borrowedAt = JNull,
       returnBy = JNull, room = JUndefined\<rparr>,
      \<lparr>ironId = 2, available = True, borrowedBy = JNull, borrowedAt = JNull,
       returnBy = JNull, room = JUndefined\<rparr>,
      \<lparr>ironId = 3, available = False, borrowedBy = JStr ''John Doe'', borrowedAt = JDate now,
       returnBy = new_Date (now + 4 * 60 * 60 * 1000), room = JUndefined\<rparr>,
      \<lparr>ironId = 4, available = True, borrowedBy = JNull, borrowedAt = JNull,
       returnBy = JNull, room = JUndefined\<rparr>,
      \<lparr>ironId = 5, available = False, borrowedBy = JStr ''Jane Smith'', borrowedAt = JDate now,
       returnBy = new_Date (now + 2 * 60 * 60 * 1000), room = JUndefined\<rparr>]"

subsection \<open>The servers as transition systems\<close>

text \<open>
  What can happen to a running server: one of the three requests arrives, time passes,
  or the timer (\<^verbatim>\<open>setInterval\<close>, every five minutes) or the \<^verbatim>\<open>SIGINT\<close> handler calls
  \<^verbatim>\<open>saveAll\<close>. Nothing else of the repository reads or writes the array: the statistics
  route only counts it.
\<close>

record server =
  ironBorrowing :: "iron list"
  clock :: int

datatype event =
    PostBorrow body
  | PostReturn body
  | GetIronBorrowing
  | Tick nat
  | SaveAll

fun router_step :: "engine \<Rightarrow> event \<Rightarrow> server \<Rightarrow> server" where
  "router_step E (PostBorrow b) s =
     s\<lparr>ironBorrowing := snd (router_post_borrow E (clock s) b (ironBorrowing s))\<rparr>"
| "router_step E (PostReturn b) s =
     s\<lparr>ironBorrowing := snd (router_post_return E b (ironBorrowing s))\<rparr>"
| "router_step E GetIronBorrowing s =
     s\<lparr>ironBorrowing := snd (router_get_iron_borrowing (ironBorrowing s))\<rparr>"
| "router_step E (Tick d) s = s\<lparr>clock := clock s + int d\<rparr>"
| "router_step E SaveAll s = s"

fun app_step :: "engine \<Rightarrow> event \<Rightarrow> server \<Rightarrow> server" where
  "app_step E (PostBorrow b) s =
     s\<lparr>ironBorrowing := snd (app_post_borrow E (clock s) b (ironBorrowing s))\<rparr>"
| "app_step E (PostReturn b) s =
     s\<lparr>ironBorrowing := snd (app_post_return E b (ironBorrowing s))\<rparr>"
| "app_step E GetIronBorrowing s =
     s\<lparr>ironBorrowing := snd (app_get_iron_borrowing (ironBorrowing s))\<rparr>"
| "app_step E (Tick d) s = s\<lparr>clock := clock s + int d\<rparr>"
| "app_step E SaveAll s = s"

text \<open>A run: the events in the order they happen.\<close>

fun run :: "(event \<Rightarrow> server \<Rightarrow> server) \<Rightarrow> event list \<Rightarrow> server \<Rightarrow> server" where
  "run step [] s = s"
| "run step (e # es) s = run step es (step e s)"

subsection \<open>The invariant of the data model, read on the code's fields\<close>

text \<open>
  A unit is checked out when \<^verbatim>\<open>available\<close> is false. A field is present when it holds
  a value, that is, neither \<^verbatim>\<open>null\<close> nor \<^verbatim>\<open>undefined\<close> (an empty string is a value).
\<close>

fun present :: "jsval \<Rightarrow> bool" where
  "present JNull = False"
| "present JUndefined = False"
| "present v = True"

definition all_present :: "iron \<Rightarrow> bool" where
  "all_present i =
     (present (borrowedBy i) \<and> present (borrowedAt i) \<and> present (returnBy i) \<and> present (room i))"

definition all_absent :: "iron \<Rightarrow> bool" where
  "all_absent i =
     (\<not> present (borrowedBy i) \<and> \<not> present (borrowedAt i) \<and> \<not> present (returnBy i) \<and>
      \<not> present (room i))"

definition I1 :: "iron \<Rightarrow> bool" where
  "I1 i = (((\<not> available i) = all_present i) \<and> (available i = all_absent i))"

text \<open>
  Invariant I2 on the same fields: the unit carries two dates and \<^verbatim>\<open>returnBy\<close> is
  strictly after \<^verbatim>\<open>borrowedAt\<close>.
\<close>

definition I2 :: "iron \<Rightarrow> bool" where
  "I2 i =
     (case borrowedAt i of
        JDate since \<Rightarrow> (case returnBy i of JDate due \<Rightarrow> since < due | _ \<Rightarrow> False)
      | _ \<Rightarrow> False)"

text \<open>Two tests on events: a return request, and a borrow request that carries a room.\<close>

fun is_return :: "event \<Rightarrow> bool" where
  "is_return (PostReturn b) = True"
| "is_return e = False"

fun carries_room :: "event \<Rightarrow> bool" where
  "carries_room (PostBorrow b) = present (req_room b)"
| "carries_room e = True"

subsection \<open>Sample ledgers and requests\<close>

text \<open>
  An iron nobody holds, an iron somebody holds, and the body of a request with its four
  fields in the order \<^verbatim>\<open>ironId\<close>, \<^verbatim>\<open>borrowerName\<close>, \<^verbatim>\<open>room\<close>, \<^verbatim>\<open>duration\<close>. They serve
  as concrete inputs below.
\<close>

definition idle_iron :: "int \<Rightarrow> iron" where
  "idle_iron k =
     \<lparr>ironId = k, available = True, borrowedBy = JNull, borrowedAt = JNull, returnBy = JNull,
      room = JNull\<rparr>"

definition held_iron :: "int \<Rightarrow> string \<Rightarrow> string \<Rightarrow> int \<Rightarrow> int \<Rightarrow> iron" where
  "held_iron k holder location since due =
     \<lparr>ironId = k, available = False, borrowedBy = JStr holder, borrowedAt = JDate since,
      returnBy = JDate due, room = JStr location\<rparr>"

definition request :: "jsval \<Rightarrow> jsval \<Rightarrow> jsval \<Rightarrow> jsval \<Rightarrow> body" where
  "request i n r d = \<lparr>req_ironId = i, req_borrowerName = n, req_room = r, req_duration = d\<rparr>"

text \<open>
  The concrete inputs below hold small integers only, so that no coercion of theirs
  reaches the engine; this is the engine they are evaluated with.
\<close>

definition idle_engine :: "engine" where
  "idle_engine = \<lparr>ecma_parseInt = (\<lambda>v. None), ecma_date = (\<lambda>now v. None)\<rparr>"

section \<open>Properties\<close>

subsection \<open>The array under \<open>find\<close> and assignment\<close>

lemma find_iron_Some: "find_iron v db = Some i \<Longrightarrow> JNum (ironId i) = v \<and> i \<in> set db"
  by (auto simp: find_iron_def find_Some_iff)

lemma length_assign_found: "length (assign_found v new db) = length db"
  by (induction db) auto

lemma find_iron_assign_found:
  "find_iron v db = Some i \<Longrightarrow> ironId new = ironId i \<Longrightarrow>
   find_iron v (assign_found v new db) = Some new"
  by (induction db) (auto simp: find_iron_def split: if_splits)

lemma list_all_assign_found:
  "list_all P db \<Longrightarrow> P new \<Longrightarrow> list_all P (assign_found v new db)"
  by (induction db) auto

lemma assign_found_keeps_borrowed:
  "n < length db \<Longrightarrow> \<not> available new \<Longrightarrow> \<not> available (db ! n) \<Longrightarrow>
   \<not> available (assign_found v new db ! n)"
proof (induction db arbitrary: n)
  case Nil
  then show ?case by simp
next
  case (Cons i db)
  then show ?case by (cases n) auto
qed

subsection \<open>Coercions\<close>

lemma truthy_present: "truthy v \<Longrightarrow> present v"
  by (cases v) auto

lemma present_js_or_string: "present (js_or v (JStr s))"
  by (cases v) (auto simp: js_or_def)

lemma parseInt_safe_integer: "safe_integer n \<Longrightarrow> parseInt E (JNum n) = JNum n"
  by simp


lemma date_after_valid:
  "valid_time (now + h * 60 * 60 * 1000) \<Longrightarrow> date_after now h = JDate (now + h * 60 * 60 * 1000)"
  by (simp add: date_after_def new_Date_def)

lemma returnBy_date_default: "\<not> truthy d \<Longrightarrow> returnBy_date E now d = date_after now 4"
  by (simp add: returnBy_date_def js_or_def)

lemma returnBy_date_hours: "d \<noteq> 0 \<Longrightarrow> returnBy_date E now (JNum d) = date_after now d"
  by (simp add: returnBy_date_def js_or_def)

lemma negative_duration_is_kept:
  "d < 0 \<Longrightarrow> valid_time (now + d * 60 * 60 * 1000) \<Longrightarrow>
   returnBy_date E now (JNum d) = JDate (now + d * 60 * 60 * 1000)"
  by (simp add: returnBy_date_hours date_after_valid)

lemma present_new_Date: "present (new_Date t)"
  by (simp add: new_Date_def)

lemma present_returnBy_date: "present (returnBy_date E now d)"
  by (simp add: returnBy_date_def date_after_def present_new_Date
      split: option.splits jsval.splits)

subsection \<open>The three outcomes of \<open>borrowIron\<close> and of \<open>returnIron\<close>\<close>

lemma borrowIron_available:
  "find_iron v db = Some iron \<Longrightarrow> available iron \<Longrightarrow>
   borrowIron E now v bd db =
     (Some (iron\<lparr>available := False, borrowedBy := bd_borrowerName bd, borrowedAt := JDate now,
                 returnBy := returnBy_date E now (bd_duration bd), room := bd_room bd\<rparr>),
      assign_found v
        (iron\<lparr>available := False, borrowedBy := bd_borrowerName bd, borrowedAt := JDate now,
              returnBy := returnBy_date E now (bd_duration bd), room := bd_room bd\<rparr>) db)"
  by (simp add: borrowIron_def Let_def)

lemma borrowIron_unavailable:
  "find_iron v db = Some iron \<Longrightarrow> \<not> available iron \<Longrightarrow> borrowIron E now v bd db = (Some iron, db)"
  by (simp add: borrowIron_def)


lemma returnIron_unavailable:
  "find_iron v db = Some iron \<Longrightarrow> \<not> available iron \<Longrightarrow>
   returnIron v db =
     (Some (iron\<lparr>available := True, borrowedBy := JNull, borrowedAt := JNull, returnBy := JNull,
                 room := JNull\<rparr>),
      assign_found v
        (iron\<lparr>available := True, borrowedBy := JNull, borrowedAt := JNull, returnBy := JNull,
              room := JNull\<rparr>) db)"
  by (simp add: returnIron_def Let_def)

lemma returnIron_available:
  "find_iron v db = Some iron \<Longrightarrow> available iron \<Longrightarrow> returnIron v db = (Some iron, db)"
  by (simp add: returnIron_def)


subsection \<open>What the handlers do to the array\<close>

lemma length_borrowIron: "length (snd (borrowIron E now v bd db)) = length db"
  by (simp add: borrowIron_def Let_def length_assign_found split: option.splits)

lemma length_returnIron: "length (snd (returnIron v db)) = length db"
  by (simp add: returnIron_def Let_def length_assign_found split: option.splits)

lemma length_app_post_borrow: "length (snd (app_post_borrow E now b db)) = length db"
  by (simp add: app_post_borrow_def Let_def length_assign_found split: option.splits)

lemma length_app_post_return: "length (snd (app_post_return E b db)) = length db"
  by (simp add: app_post_return_def Let_def length_assign_found split: option.splits)

lemma length_app_step: "length (ironBorrowing (app_step E e s)) = length (ironBorrowing s)"
  by (cases e)
    (simp_all add: length_app_post_borrow length_app_post_return app_get_iron_borrowing_def)

lemma length_run_app:
  "length (ironBorrowing (run (app_step E) es s)) = length (ironBorrowing s)"
  by (induction es arbitrary: s) (simp_all add: length_app_step)

lemma snd_router_post_borrow:
  "snd (router_post_borrow E now r db) =
     (if truthy (req_ironId (sanitizeInput r)) \<and> truthy (req_borrowerName (sanitizeInput r))
      then snd (borrowIron E now (parseInt E (req_ironId (sanitizeInput r)))
             \<lparr>bd_borrowerName = req_borrowerName (sanitizeInput r),
              bd_room = js_or (req_room (sanitizeInput r)) (JStr []),
              bd_duration = js_or (parseInt E (req_duration (sanitizeInput r))) (JNum 4)\<rparr> db)
      else db)"
  by (auto simp: router_post_borrow_def borrow_handler_def split: prod.splits option.splits)

lemma snd_router_post_return:
  "snd (router_post_return E r db) =
     (if truthy (req_ironId (sanitizeInput r))
      then snd (returnIron (parseInt E (req_ironId (sanitizeInput r))) db)
      else db)"
  by (auto simp: router_post_return_def return_handler_def split: prod.splits option.splits)

lemma length_router_post_borrow: "length (snd (router_post_borrow E now r db)) = length db"
  by (simp add: snd_router_post_borrow length_borrowIron)

lemma length_router_post_return: "length (snd (router_post_return E r db)) = length db"
  by (simp add: snd_router_post_return length_returnIron)

lemma length_router_step: "length (ironBorrowing (router_step E e s)) = length (ironBorrowing s)"
  by (cases e)
    (simp_all add: length_router_post_borrow length_router_post_return
      router_get_iron_borrowing_def)

lemma length_run_router:
  "length (ironBorrowing (run (router_step E) es s)) = length (ironBorrowing s)"
  by (induction es arbitrary: s) (simp_all add: length_router_step)

lemma I1_borrowed:
  "present n \<Longrightarrow> present rm \<Longrightarrow>
   I1 (iron\<lparr>available := False, borrowedBy := n, borrowedAt := JDate now,
           returnBy := returnBy_date E now d, room := rm\<rparr>)"
  by (simp add: I1_def all_present_def all_absent_def present_returnBy_date)

lemma I1_returned:
  "I1 (iron\<lparr>available := True, borrowedBy := JNull, borrowedAt := JNull, returnBy := JNull,
           room := JNull\<rparr>)"
  by (simp add: I1_def all_present_def all_absent_def)

lemma I1_borrowIron:
  "list_all I1 db \<Longrightarrow> present (bd_borrowerName bd) \<Longrightarrow> present (bd_room bd) \<Longrightarrow>
   list_all I1 (snd (borrowIron E now v bd db))"
  by (simp add: borrowIron_def Let_def list_all_assign_found I1_borrowed split: option.splits)

lemma I1_returnIron: "list_all I1 db \<Longrightarrow> list_all I1 (snd (returnIron v db))"
  by (simp add: returnIron_def Let_def list_all_assign_found I1_returned split: option.splits)

lemma I1_router_step:
  "list_all I1 (ironBorrowing s) \<Longrightarrow> list_all I1 (ironBorrowing (router_step E e s))"
  by (cases e)
    (simp_all add: snd_router_post_borrow snd_router_post_return I1_borrowIron I1_returnIron
      truthy_present present_js_or_string router_get_iron_borrowing_def)

lemma I1_app_step:
  "list_all I1 (ironBorrowing s) \<Longrightarrow> carries_room e \<Longrightarrow>
   list_all I1 (ironBorrowing (app_step E e s))"
  by (cases e)
    (simp_all add: app_post_borrow_def app_post_return_def Let_def list_all_assign_found
      I1_borrowed I1_returned truthy_present app_get_iron_borrowing_def split: option.splits)

lemma I1_run_router:
  "list_all I1 (ironBorrowing s) \<Longrightarrow> list_all I1 (ironBorrowing (run (router_step E) es s))"
  by (induction es arbitrary: s) (simp_all add: I1_router_step)

lemma I1_run_app:
  "list_all I1 (ironBorrowing s) \<Longrightarrow> list_all carries_room es \<Longrightarrow>
   list_all I1 (ironBorrowing (run (app_step E) es s))"
  by (induction es arbitrary: s) (simp_all add: I1_app_step)


lemma app_post_return_available:
  "find_iron v db = Some iron \<Longrightarrow> available iron \<Longrightarrow> truthy (req_ironId b) \<Longrightarrow>
   parseInt E (req_ironId b) = v \<Longrightarrow>
   app_post_return E b db = (json_error 400 ''Iron is not currently borrowed'', db)"
  by (simp add: app_post_return_def)

lemma I2_default:
  "I2 (iron\<lparr>available := False, borrowedBy := n, borrowedAt := JDate now,
           returnBy := JDate (now + 14400000), room := rm\<rparr>)"
  by (simp add: I2_def)


lemma borrowIron_keeps_borrowed:
  "n < length db \<Longrightarrow> \<not> available (db ! n) \<Longrightarrow> \<not> available (snd (borrowIron E now v bd db) ! n)"
  by (simp add: borrowIron_def Let_def assign_found_keeps_borrowed split: option.splits)

lemma app_post_borrow_keeps_borrowed:
  "n < length db \<Longrightarrow> \<not> available (db ! n) \<Longrightarrow> \<not> available (snd (app_post_borrow E now b db) ! n)"
  by (simp add: app_post_borrow_def Let_def assign_found_keeps_borrowed split: option.splits)

lemma router_step_keeps_borrowed:
  "\<not> is_return e \<Longrightarrow> n < length (ironBorrowing s) \<Longrightarrow> \<not> available (ironBorrowing s ! n) \<Longrightarrow>
   \<not> available (ironBorrowing (router_step E e s) ! n)"
  by (cases e)
    (simp_all add: snd_router_post_borrow borrowIron_keeps_borrowed router_get_iron_borrowing_def)

lemma app_step_keeps_borrowed:
  "\<not> is_return e \<Longrightarrow> n < length (ironBorrowing s) \<Longrightarrow> \<not> available (ironBorrowing s ! n) \<Longrightarrow>
   \<not> available (ironBorrowing (app_step E e s) ! n)"
  by (cases e)
    (simp_all add: app_post_borrow_keeps_borrowed app_get_iron_borrowing_def)

lemma router_run_keeps_borrowed:
  "list_all (\<lambda>e. \<not> is_return e) es \<Longrightarrow> n < length (ironBorrowing s) \<Longrightarrow>
   \<not> available (ironBorrowing s ! n) \<Longrightarrow> \<not> available (ironBorrowing (run (router_step E) es s) ! n)"
  by (induction es arbitrary: s) (simp_all add: router_step_keeps_borrowed length_router_step)

lemma app_run_keeps_borrowed:
  "list_all (\<lambda>e. \<not> is_return e) es \<Longrightarrow> n < length (ironBorrowing s) \<Longrightarrow>
   \<not> available (ironBorrowing s ! n) \<Longrightarrow> \<not> available (ironBorrowing (run (app_step E) es s) ! n)"
  by (induction es arbitrary: s) (simp_all add: app_step_keeps_borrowed length_app_step)

lemma counts_after_borrow:
  "find_iron v db = Some iron \<Longrightarrow> available iron \<Longrightarrow> \<not> available new \<Longrightarrow>
   length (filter (\<lambda>i. available i) (assign_found v new db)) + 1 =
     length (filter (\<lambda>i. available i) db) \<and>
   length (filter (\<lambda>i. \<not> available i) (assign_found v new db)) =
     length (filter (\<lambda>i. \<not> available i) db) + 1"
  by (induction db) (auto simp: find_iron_def split: if_splits)

lemma counts_after_return:
  "find_iron v db = Some iron \<Longrightarrow> \<not> available iron \<Longrightarrow> available new \<Longrightarrow>
   length (filter (\<lambda>i. available i) (assign_found v new db)) =
     length (filter (\<lambda>i. available i) db) + 1 \<and>
   length (filter (\<lambda>i. \<not> available i) (assign_found v new db)) + 1 =
     length (filter (\<lambda>i. \<not> available i) db)"
  by (induction db) (auto simp: find_iron_def split: if_splits)

lemma counts_after_borrowIron:
  assumes "find_iron v db = Some iron" and "available iron"
  shows "length (filter (\<lambda>i. available i) (snd (borrowIron E now v bd db))) + 1 =
      length (filter (\<lambda>i. available i) db) \<and>
    length (filter (\<lambda>i. \<not> available i) (snd (borrowIron E now v bd db))) =
      length (filter (\<lambda>i. \<not> available i) db) + 1"
proof -
  let ?new = "iron\<lparr>available := False, borrowedBy := bd_borrowerName bd, borrowedAt := JDate now,
      returnBy := returnBy_date E now (bd_duration bd), room := bd_room bd\<rparr>"
  have "\<not> available ?new"
    by simp
  from counts_after_borrow [OF assms this] show ?thesis
    by (simp add: borrowIron_available [OF assms])
qed

lemma counts_after_returnIron:
  assumes "find_iron v db = Some iron" and "\<not> available iron"
  shows "length (filter (\<lambda>i. available i) (snd (returnIron v db))) =
      length (filter (\<lambda>i. available i) db) + 1 \<and>
    length (filter (\<lambda>i. \<not> available i) (snd (returnIron v db))) + 1 =
      length (filter (\<lambda>i. \<not> available i) db)"
proof -
  let ?new = "iron\<lparr>available := True, borrowedBy := JNull, borrowedAt := JNull,
      returnBy := JNull, room := JNull\<rparr>"
  have "available ?new"
    by simp
  from counts_after_return [OF assms this] show ?thesis
    by (simp add: returnIron_unavailable [OF assms])
qed

subsection \<open>Invariant I1 along runs\<close>

text \<open>
  I1 is kept: when every unit satisfies it, every unit satisfies it after any run of the
  router's server, and after any run of the standalone server whose borrow requests
  carry a room (the standalone server stores the room as sent, the router stores the
  empty string for a missing one). The array literal of the standalone server does not
  start in such a state: its borrowed irons have no room.
\<close>

lemma I1_preserved_by_runs:
  assumes "list_all I1 (ironBorrowing s)"
  shows "list_all I1 (ironBorrowing (run (router_step E) es s)) \<and>
    (list_all carries_room es \<longrightarrow> list_all I1 (ironBorrowing (run (app_step E) es s)))"
  using assms by (simp add: I1_run_router I1_run_app)

lemma app_ironBorrowing_violates_I1: "\<not> list_all I1 (app_ironBorrowing now)"
  by (simp add: app_ironBorrowing_def I1_def all_present_def all_absent_def)

lemmas sample_defs = idle_iron_def held_iron_def request_def

subsection \<open>The coercions and the routes at the edge of the integers defined here\<close>

text \<open>
  \<^verbatim>\<open>parseInt\<close> reads a prefix; a number in exponent notation and a numeral of \<open>2 ^ 53\<close> or
  more are the engine's. With an engine that reads \<^verbatim>\<open>1e21\<close> as 1, as its string
  \<^verbatim>\<open>1e+21\<close> makes it, a borrow request for iron \<^verbatim>\<open>1e21\<close> takes iron 1.
\<close>

lemma parseInt_prefixes:
  "parseInt E (JStr '' 42px'') = JNum 42 \<and> parseInt E (JStr ''-0x1F'') = JNum (- 31) \<and>
   parseInt E (JStr ''abc'') = JNaN \<and> parseInt E (JStr []) = JNaN \<and>
   parseInt E (JNum 9007199254740991) = JNum 9007199254740991"
  by (simp add: parseInt_string_def is_ws_def is_digit_def digit_of_def digits_value_def
      safe_integer_def)

lemma parseInt_exponent_notation:
  "ecma_parseInt E (JNum 1000000000000000000000) = Some 1 \<Longrightarrow>
   parseInt E (JNum 1000000000000000000000) = JNum 1"
  by (simp add: safe_integer_def)

lemma parseInt_long_numeral:
  "parseInt E (JStr ''9007199254740993'') =
     (case ecma_parseInt E (JStr ''9007199254740993'') of
        Some n \<Rightarrow> JNum n
      | None \<Rightarrow> JInfinity False)"
  by (simp add: parseInt_string_def is_ws_def is_digit_def digit_of_def digits_value_def
      safe_integer_def)

lemma exponent_notation_id_takes_iron_1:
  "ecma_parseInt E (JNum 1000000000000000000000) = Some 1 \<Longrightarrow>
   app_post_borrow E 1000
       (request (JNum 1000000000000000000000) (JStr ''Alice'') (JStr ''x'') JUndefined)
       [idle_iron 1, idle_iron 2, idle_iron 3] =
     (json_iron ''Iron borrowed successfully'' (held_iron 1 ''Alice'' ''x'' 1000 14401000),
      [held_iron 1 ''Alice'' ''x'' 1000 14401000, idle_iron 2, idle_iron 3])"
  by (simp add: app_post_borrow_def sample_defs find_iron_def safe_integer_def Let_def
      returnBy_date_default date_after_def new_Date_def valid_time_def)

text \<open>
  A duration that leads beyond the time values of \<^verbatim>\<open>Date\<close> gives an invalid date; a
  duration that the router's \<^verbatim>\<open>parseInt\<close> reads as 1 gives one hour; and a string with a
  fraction is the engine's.
\<close>

lemma duration_out_of_range: "returnBy_date E 1000 (JNum 2400000000) = JInvalidDate"
  by (simp add: returnBy_date_hours date_after_def new_Date_def valid_time_def)

lemma router_duration_in_exponent_notation:
  "ecma_parseInt E (JNum 1000000000000000000000) = Some 1 \<Longrightarrow>
   returnBy_date E 1000 (js_or (parseInt E (JNum 1000000000000000000000)) (JNum 4)) =
     JDate 3601000"
  by (simp add: safe_integer_def js_or_def returnBy_date_hours date_after_def new_Date_def
      valid_time_def)

lemma duration_with_a_fraction:
  "ecma_date E 1000 (JStr ''2.0'') = Some 7201000 \<Longrightarrow>
   returnBy_date E 1000 (JStr ''2.0'') = JDate 7201000"
  by (simp add: returnBy_date_def js_or_def toNumber_string_def trim_def is_ws_def
      radix_literal_def is_digit_def digit_of_def new_Date_def valid_time_def)

text \<open>A blank borrower name is empty once \<open>sanitizeInput\<close> has trimmed it.\<close>

lemma blank_borrower_name_is_missing:
  "router_post_borrow E 1000 (request (JNum 1) (JStr '' '') JUndefined JUndefined) [idle_iron 1] =
     (apiError ''Iron ID and borrower name are required'' 400, [idle_iron 1])"
  by (simp add: router_post_borrow_def borrow_handler_def sanitizeInput_def sanitizeString_def
      trim_def is_ws_def request_def)

subsection \<open>The claims\<close>

text \<open>
  C1. Claimed: a checkout of an Available unit with a positive duration succeeds, the unit
  becomes checked out for that duration, and the updated unit is returned. \<open>borrowIron\<close>
  does change the unit so (lemmas \<open>borrowIron_available\<close>, \<open>returnBy_date_hours\<close>) and the
  standalone server answers with it (lemma \<open>app_post_borrow_available\<close>). The router does
  not report it: it calls \<open>borrowIron\<close> first and tests \<^verbatim>\<open>!iron.available\<close> on the object
  that call has just changed. On a pool of three free irons the request for iron 2 by
  Alice, room 101, two hours, at time 1000 leaves iron 2 held by Alice until 7201000 and
  is answered with status 400, \<^verbatim>\<open>Iron is already borrowed\<close>, whatever the engine.
\<close>

theorem C1_router_reports_failure_on_available_iron:
  "router_post_borrow E 1000 (request (JNum 2) (JStr ''Alice'') (JStr ''Room 101'') (JNum 2))
     [idle_iron 1, idle_iron 2, idle_iron 3] =
   (apiError ''Iron is already borrowed'' 400,
    [idle_iron 1, held_iron 2 ''Alice'' ''Room 101'' 1000 7201000, idle_iron 3])"
  by code_simp

theorem C1_router_reports_failure_witness:
  "fst (router_post_borrow idle_engine 1000 (request (JNum 2) (JStr ''Alice'') (JStr ''Room 101'') (JNum 2))
     [idle_iron 1, idle_iron 2, idle_iron 3]) \<noteq>
   apiSuccess (held_iron 2 ''Alice'' ''Room 101'' 1000 7201000) ''Iron borrowed successfully''"
  using C1_router_reports_failure_on_available_iron by simp

text \<open>
  C2. A checkout of a unit that is checked out changes nothing: \<open>borrowIron\<close> returns
  the array as it was, and both servers answer a request that carries an iron id and a
  borrower name with status 400, \<^verbatim>\<open>Iron is already borrowed\<close> (the router on the body
  as \<open>sanitizeInput\<close> hands it on). Whatever else the request carries, the array is
  left as it was.
\<close>

theorem C2_checked_out_unit_is_refused:
  assumes "find_iron v db = Some iron" and "\<not> available iron"
  shows "borrowIron E now v bd db = (Some iron, db) \<and>
    (truthy (req_ironId b) \<and> truthy (req_borrowerName b) \<and> parseInt E (req_ironId b) = v \<longrightarrow>
       app_post_borrow E now b db = (json_error 400 ''Iron is already borrowed'', db)) \<and>
    (truthy (req_ironId (sanitizeInput r)) \<and> truthy (req_borrowerName (sanitizeInput r)) \<and>
     parseInt E (req_ironId (sanitizeInput r)) = v \<longrightarrow>
       router_post_borrow E now r db = (apiError ''Iron is already borrowed'' 400, db)) \<and>
    (parseInt E (req_ironId b) = v \<longrightarrow> snd (app_post_borrow E now b db) = db) \<and>
    (parseInt E (req_ironId (sanitizeInput r)) = v \<longrightarrow> snd (router_post_borrow E now r db) = db)"
  using assms
  by (auto simp: borrowIron_unavailable app_post_borrow_def router_post_borrow_def
      borrow_handler_def)

theorem C2_checked_out_unit_is_refused_witness:
  "find_iron (JNum 2) [idle_iron 1, held_iron 2 ''Alice'' ''Room 101'' 1000 7201000, idle_iron 3] =
     Some (held_iron 2 ''Alice'' ''Room 101'' 1000 7201000) \<and>
   \<not> available (held_iron 2 ''Alice'' ''Room 101'' 1000 7201000) \<and>
   borrowIron idle_engine 2000 (JNum 2) \<lparr>bd_borrowerName = JStr ''Bob'', bd_room = JStr ''Room 102'', bd_duration = JNum 4\<rparr>
     [idle_iron 1, held_iron 2 ''Alice'' ''Room 101'' 1000 7201000, idle_iron 3] =
     (Some (held_iron 2 ''Alice'' ''Room 101'' 1000 7201000),
      [idle_iron 1, held_iron 2 ''Alice'' ''Room 101'' 1000 7201000, idle_iron 3]) \<and>
   app_post_borrow idle_engine 2000 (request (JNum 2) (JStr ''Bob'') (JStr ''Room 102'') JUndefined)
     [idle_iron 1, held_iron 2 ''Alice'' ''Room 101'' 1000 7201000, idle_iron 3] =
     (json_error 400 ''Iron is already borrowed'',
      [idle_iron 1, held_iron 2 ''Alice'' ''Room 101'' 1000 7201000, idle_iron 3]) \<and>
   router_post_borrow idle_engine 2000 (request (JNum 2) (JStr ''Bob'') (JStr ''Room 102'') JUndefined)
     [idle_iron 1, held_iron 2 ''Alice'' ''Room 101'' 1000 7201000, idle_iron 3] =
     (apiError ''Iron is already borrowed'' 400,
      [idle_iron 1, held_iron 2 ''Alice'' ''Room 101'' 1000 7201000, idle_iron 3])"
proof -
  have found: "find_iron (JNum 2)
      [idle_iron 1, held_iron 2 ''Alice'' ''Room 101'' 1000 7201000, idle_iron 3] =
      Some (held_iron 2 ''Alice'' ''Room 101'' 1000 7201000)"
    by (simp add: find_iron_def sample_defs)
  have held: "\<not> available (held_iron 2 ''Alice'' ''Room 101'' 1000 7201000)"
    by (simp add: held_iron_def)
  have req: "truthy (req_ironId (request (JNum 2) (JStr ''Bob'') (JStr ''Room 102'') JUndefined))"
    "truthy (req_borrowerName (request (JNum 2) (JStr ''Bob'') (JStr ''Room 102'') JUndefined))"
    "parseInt idle_engine (req_ironId (request (JNum 2) (JStr ''Bob'') (JStr ''Room 102'') JUndefined)) = JNum 2"
    by (simp_all add: request_def safe_integer_def)
  have san: "sanitizeInput (request (JNum 2) (JStr ''Bob'') (JStr ''Room 102'') JUndefined) =
      request (JNum 2) (JStr ''Bob'') (JStr ''Room 102'') JUndefined"
    by code_simp
  show ?thesis
    using found held req san
      C2_checked_out_unit_is_refused [OF found held,
        where E = idle_engine and now = 2000
          and bd = "\<lparr>bd_borrowerName = JStr ''Bob'', bd_room = JStr ''Room 102'',
                     bd_duration = JNum 4\<rparr>"
          and b = "request (JNum 2) (JStr ''Bob'') (JStr ''Room 102'') JUndefined"
          and r = "request (JNum 2) (JStr ''Bob'') (JStr ''Room 102'') JUndefined"]
    by simp
qed

text \<open>
  C3. Claimed: a release of an Available unit fails (the unit is not checked out), it is
  not reported as a success, and nothing changes. Nothing changes on any path (lemma
  \<open>returnIron_available\<close>), and the standalone server answers 400,
  \<^verbatim>\<open>Iron is not currently borrowed\<close> (lemma \<open>app_post_return_available\<close>). The router has
  no such test: \<open>returnIron\<close> hands back the untouched iron and the route answers
  \<^verbatim>\<open>Iron returned successfully\<close>, here for iron 2 of three free irons.
\<close>

theorem C3_router_reports_success_on_free_iron:
  "router_post_return E (request (JNum 2) JUndefined JUndefined JUndefined)
     [idle_iron 1, idle_iron 2, idle_iron 3] =
   (apiSuccess (idle_iron 2) ''Iron returned successfully'',
    [idle_iron 1, idle_iron 2, idle_iron 3])"
  by code_simp

theorem C3_router_reports_success_witness:
  "fst (router_post_return idle_engine (request (JNum 2) JUndefined JUndefined JUndefined)
     [idle_iron 1, idle_iron 2, idle_iron 3]) \<noteq> apiError ''Iron is not currently borrowed'' 400"
  using C3_router_reports_success_on_free_iron by simp

text \<open>
  C4. A release of a checked-out unit succeeds: \<open>returnIron\<close> and both servers put the
  unit with \<^verbatim>\<open>available\<close> true and the four borrow fields \<^verbatim>\<open>null\<close> in the place of the
  old one, and return it (the servers for a request that carries an iron id).
\<close>

theorem C4_release_clears_the_unit:
  assumes "find_iron v db = Some iron" and "\<not> available iron"
    and "cleared = iron\<lparr>available := True, borrowedBy := JNull, borrowedAt := JNull,
                         returnBy := JNull, room := JNull\<rparr>"
  shows "returnIron v db = (Some cleared, assign_found v cleared db) \<and>
    (truthy (req_ironId b) \<and> parseInt E (req_ironId b) = v \<longrightarrow>
       app_post_return E b db =
         (json_iron ''Iron returned successfully'' cleared, assign_found v cleared db)) \<and>
    (truthy (req_ironId (sanitizeInput r)) \<and> parseInt E (req_ironId (sanitizeInput r)) = v \<longrightarrow>
       router_post_return E r db =
         (apiSuccess cleared ''Iron returned successfully'', assign_found v cleared db)) \<and>
    find_iron v (assign_found v cleared db) = Some cleared \<and>
    available cleared \<and> borrowedBy cleared = JNull \<and> borrowedAt cleared = JNull \<and>
    returnBy cleared = JNull \<and> room cleared = JNull \<and> ironId cleared = ironId iron"
proof -
  have "find_iron v (assign_found v cleared db) = Some cleared"
    using assms by (simp add: find_iron_assign_found)
  then show ?thesis
    using assms
    by (auto simp: returnIron_unavailable app_post_return_def router_post_return_def
        return_handler_def Let_def)
qed

theorem C4_release_clears_the_unit_witness:
  "find_iron (JNum 2) [idle_iron 1, held_iron 2 ''Alice'' ''Room 101'' 1000 7201000, idle_iron 3] =
     Some (held_iron 2 ''Alice'' ''Room 101'' 1000 7201000) \<and>
   \<not> available (held_iron 2 ''Alice'' ''Room 101'' 1000 7201000) \<and>
   returnIron (JNum 2) [idle_iron 1, held_iron 2 ''Alice'' ''Room 101'' 1000 7201000, idle_iron 3] =
     (Some (idle_iron 2), [idle_iron 1, idle_iron 2, idle_iron 3]) \<and>
   app_post_return idle_engine (request (JNum 2) JUndefined JUndefined JUndefined)
       [idle_iron 1, held_iron 2 ''Alice'' ''Room 101'' 1000 7201000, idle_iron 3] =
     (json_iron ''Iron returned successfully'' (idle_iron 2),
      [idle_iron 1, idle_iron 2, idle_iron 3]) \<and>
   router_post_return idle_engine (request (JNum 2) JUndefined JUndefined JUndefined)
       [idle_iron 1, held_iron 2 ''Alice'' ''Room 101'' 1000 7201000, idle_iron 3] =
     (apiSuccess (idle_iron 2) ''Iron returned successfully'',
      [idle_iron 1, idle_iron 2, idle_iron 3])"
proof -
  have found: "find_iron (JNum 2)
      [idle_iron 1, held_iron 2 ''Alice'' ''Room 101'' 1000 7201000, idle_iron 3] =
      Some (held_iron 2 ''Alice'' ''Room 101'' 1000 7201000)"
    by (simp add: find_iron_def sample_defs)
  have held: "\<not> available (held_iron 2 ''Alice'' ''Room 101'' 1000 7201000)"
    by (simp add: held_iron_def)
  have cleared: "idle_iron 2 = (held_iron 2 ''Alice'' ''Room 101'' 1000 7201000)
      \<lparr>available := True, borrowedBy := JNull, borrowedAt := JNull, returnBy := JNull,
       room := JNull\<rparr>"
    by (simp add: sample_defs)
  have placed: "assign_found (JNum 2) (idle_iron 2)
      [idle_iron 1, held_iron 2 ''Alice'' ''Room 101'' 1000 7201000, idle_iron 3] =
      [idle_iron 1, idle_iron 2, idle_iron 3]"
    by (simp add: sample_defs)
  have req: "truthy (req_ironId (request (JNum 2) JUndefined JUndefined JUndefined))"
    "parseInt idle_engine (req_ironId (request (JNum 2) JUndefined JUndefined JUndefined)) = JNum 2"
    by (simp_all add: request_def safe_integer_def)
  have san: "sanitizeInput (request (JNum 2) JUndefined JUndefined JUndefined) =
      request (JNum 2) JUndefined JUndefined JUndefined"
    by code_simp
  show ?thesis
    using found held placed req san
      C4_release_clears_the_unit [OF found held cleared,
        where E = idle_engine
          and b = "request (JNum 2) JUndefined JUndefined JUndefined"
          and r = "request (JNum 2) JUndefined JUndefined JUndefined"]
    by simp
qed

text \<open>
  C5. Claimed: I1 holds for every unit in every reachable state, the provisioned state
  included. The handlers keep I1 (lemma \<open>I1_preserved_by_runs\<close>), but the state that
  \<open>getDefaultIrons\<close> provisions need not have it: each field is drawn on its own, and
  when the first draw is above 0.3 and the second is not, iron 1 is available and
  borrowed by \<^verbatim>\<open>Student 1\<close>.
\<close>

theorem C5_provisioned_irons_violate_I1:
  "hd (getDefaultIrons 1000 (\<lambda>k. if k = 1 then 1 / 10 else 1 / 2)) =
     \<lparr>ironId = 1, available = True, borrowedBy = JStr ''Student 1'', borrowedAt = JNull,
      returnBy = JNull, room = JNull\<rparr> \<and>
   \<not> I1 (hd (getDefaultIrons 1000 (\<lambda>k. if k = 1 then 1 / 10 else 1 / 2))) \<and>
   \<not> list_all I1 (getDefaultIrons 1000 (\<lambda>k. if k = 1 then 1 / 10 else 1 / 2))"
  by code_simp

theorem C5_provisioned_irons_violate_I1_witness:
  "\<not> list_all I1 (getDefaultIrons 1000 (\<lambda>k. if k = 1 then 1 / 10 else 1 / 2))"
  using C5_provisioned_irons_violate_I1 by simp

text \<open>
  C6. The status route of the router, read in the state after any run of the server from
  any state: it answers with a summary whose total is the number of irons of the array,
  whose counts of available and of borrowed irons are the numbers of irons that are and
  that are not available in the array as it is at the call, and whose two counts add up
  to the total; the total is the number of irons the run started with; and the route
  leaves the array alone. \<open>borrowIron\<close>, \<open>returnIron\<close> and the two POST routes keep the
  number of irons, and a checkout or release that takes effect moves one iron from one
  count to the other, which the next read then shows.
\<close>

theorem C6_summary_counts_add_up:
  assumes "router_get_iron_borrowing (ironBorrowing (run (router_step E) es s)) = (response, db')"
  shows "(\<exists>summary.
       response = apiSuccess summary ''Iron borrowing status retrieved successfully'' \<and>
       sum_irons summary = ironBorrowing (run (router_step E) es s) \<and>
       sum_total summary = length (ironBorrowing (run (router_step E) es s)) \<and>
       sum_available summary =
         length (filter (\<lambda>i. available i) (ironBorrowing (run (router_step E) es s))) \<and>
       sum_borrowed summary =
         length (filter (\<lambda>i. \<not> available i) (ironBorrowing (run (router_step E) es s))) \<and>
       sum_available summary + sum_borrowed summary = sum_total summary \<and>
       sum_total summary = length (ironBorrowing s)) \<and>
    db' = ironBorrowing (run (router_step E) es s) \<and>
    length (snd (borrowIron E now v bd db)) = length db \<and>
    length (snd (returnIron w db)) = length db \<and>
    length (snd (router_post_borrow E now r db)) = length db \<and>
    length (snd (router_post_return E r db)) = length db \<and>
    (find_iron v db = Some iron \<and> available iron \<longrightarrow>
       length (filter (\<lambda>i. available i) (snd (borrowIron E now v bd db))) + 1 =
         length (filter (\<lambda>i. available i) db) \<and>
       length (filter (\<lambda>i. \<not> available i) (snd (borrowIron E now v bd db))) =
         length (filter (\<lambda>i. \<not> available i) db) + 1) \<and>
    (find_iron w db = Some held \<and> \<not> available held \<longrightarrow>
       length (filter (\<lambda>i. available i) (snd (returnIron w db))) =
         length (filter (\<lambda>i. available i) db) + 1 \<and>
       length (filter (\<lambda>i. \<not> available i) (snd (returnIron w db))) + 1 =
         length (filter (\<lambda>i. \<not> available i) db))"
proof -
  let ?db = "ironBorrowing (run (router_step E) es s)"
  have read: "response = apiSuccess (iron_summary ?db)
      ''Iron borrowing status retrieved successfully'' \<and> db' = ?db"
    using assms by (auto simp: router_get_iron_borrowing_def)
  have summary: "sum_irons (iron_summary ?db) = ?db \<and>
      sum_total (iron_summary ?db) = length ?db \<and>
      sum_available (iron_summary ?db) = length (filter (\<lambda>i. available i) ?db) \<and>
      sum_borrowed (iron_summary ?db) = length (filter (\<lambda>i. \<not> available i) ?db) \<and>
      sum_available (iron_summary ?db) + sum_borrowed (iron_summary ?db) =
        sum_total (iron_summary ?db) \<and>
      sum_total (iron_summary ?db) = length (ironBorrowing s)"
    by (simp add: iron_summary_def sum_length_filter_compl length_run_router)
  have kept: "length (snd (borrowIron E now v bd db)) = length db \<and>
      length (snd (returnIron w db)) = length db \<and>
      length (snd (router_post_borrow E now r db)) = length db \<and>
      length (snd (router_post_return E r db)) = length db"
    by (simp add: length_borrowIron length_returnIron length_router_post_borrow
        length_router_post_return)
  have borrowed: "find_iron v db = Some iron \<and> available iron \<longrightarrow>
       length (filter (\<lambda>i. available i) (snd (borrowIron E now v bd db))) + 1 =
         length (filter (\<lambda>i. available i) db) \<and>
       length (filter (\<lambda>i. \<not> available i) (snd (borrowIron E now v bd db))) =
         length (filter (\<lambda>i. \<not> available i) db) + 1"
    using counts_after_borrowIron [of v db iron E now bd] by blast
  have returned: "find_iron w db = Some held \<and> \<not> available held \<longrightarrow>
       length (filter (\<lambda>i. available i) (snd (returnIron w db))) =
         length (filter (\<lambda>i. available i) db) + 1 \<and>
       length (filter (\<lambda>i. \<not> available i) (snd (returnIron w db))) + 1 =
         length (filter (\<lambda>i. \<not> available i) db)"
    using counts_after_returnIron [of w db held] by blast
  from read summary kept borrowed returned show ?thesis by blast
qed

theorem C6_summary_counts_add_up_witness:
  "router_get_iron_borrowing (ironBorrowing (run (router_step idle_engine)
       [PostBorrow (request (JNum 1) (JStr ''Bob'') (JStr ''Room 102'') JUndefined), Tick 5,
        PostReturn (request (JNum 2) JUndefined JUndefined JUndefined)]
       \<lparr>ironBorrowing = [idle_iron 1, held_iron 2 ''Alice'' ''Room 101'' 1000 7201000,
          idle_iron 3], clock = 2000\<rparr>)) =
     (apiSuccess
        \<lparr>sum_total = 3, sum_available = 2, sum_borrowed = 1,
         sum_irons = [held_iron 1 ''Bob'' ''Room 102'' 2000 14402000, idle_iron 2, idle_iron 3]\<rparr>
        ''Iron borrowing status retrieved successfully'',
      [held_iron 1 ''Bob'' ''Room 102'' 2000 14402000, idle_iron 2, idle_iron 3]) \<and>
   find_iron (JNum 1) [idle_iron 1, held_iron 2 ''Alice'' ''Room 101'' 1000 7201000] =
     Some (idle_iron 1) \<and>
   available (idle_iron 1) \<and>
   length (filter (\<lambda>i. available i) (snd (borrowIron idle_engine 2000 (JNum 1)
       \<lparr>bd_borrowerName = JStr ''Bob'', bd_room = JStr ''Room 102'', bd_duration = JNum 4\<rparr>
       [idle_iron 1, held_iron 2 ''Alice'' ''Room 101'' 1000 7201000]))) + 1 =
     length (filter (\<lambda>i. available i)
       [idle_iron 1, held_iron 2 ''Alice'' ''Room 101'' 1000 7201000]) \<and>
   find_iron (JNum 2) [idle_iron 1, held_iron 2 ''Alice'' ''Room 101'' 1000 7201000] =
     Some (held_iron 2 ''Alice'' ''Room 101'' 1000 7201000) \<and>
   \<not> available (held_iron 2 ''Alice'' ''Room 101'' 1000 7201000) \<and>
   length (filter (\<lambda>i. \<not> available i) (snd (returnIron (JNum 2)
       [idle_iron 1, held_iron 2 ''Alice'' ''Room 101'' 1000 7201000]))) + 1 =
     length (filter (\<lambda>i. \<not> available i)
       [idle_iron 1, held_iron 2 ''Alice'' ''Room 101'' 1000 7201000])"
proof -
  have read: "router_get_iron_borrowing (ironBorrowing (run (router_step idle_engine)
       [PostBorrow (request (JNum 1) (JStr ''Bob'') (JStr ''Room 102'') JUndefined), Tick 5,
        PostReturn (request (JNum 2) JUndefined JUndefined JUndefined)]
       \<lparr>ironBorrowing = [idle_iron 1, held_iron 2 ''Alice'' ''Room 101'' 1000 7201000,
          idle_iron 3], clock = 2000\<rparr>)) =
     (apiSuccess
        \<lparr>sum_total = 3, sum_available = 2, sum_borrowed = 1,
         sum_irons = [held_iron 1 ''Bob'' ''Room 102'' 2000 14402000, idle_iron 2, idle_iron 3]\<rparr>
        ''Iron borrowing status retrieved successfully'',
      [held_iron 1 ''Bob'' ''Room 102'' 2000 14402000, idle_iron 2, idle_iron 3])"
    by code_simp
  have free: "find_iron (JNum 1) [idle_iron 1, held_iron 2 ''Alice'' ''Room 101'' 1000 7201000] =
      Some (idle_iron 1) \<and> available (idle_iron 1)"
    by (simp add: find_iron_def sample_defs)
  have held: "find_iron (JNum 2) [idle_iron 1, held_iron 2 ''Alice'' ''Room 101'' 1000 7201000] =
      Some (held_iron 2 ''Alice'' ''Room 101'' 1000 7201000) \<and>
      \<not> available (held_iron 2 ''Alice'' ''Room 101'' 1000 7201000)"
    by (simp add: find_iron_def sample_defs)
  show ?thesis
    using read free held
      C6_summary_counts_add_up [OF read,
        where v = "JNum 1" and iron = "idle_iron 1" and w = "JNum 2"
          and held = "held_iron 2 ''Alice'' ''Room 101'' 1000 7201000"
          and db = "[idle_iron 1, held_iron 2 ''Alice'' ''Room 101'' 1000 7201000]"
          and now = 2000
          and bd = "\<lparr>bd_borrowerName = JStr ''Bob'', bd_room = JStr ''Room 102'',
                     bd_duration = JNum 4\<rparr>"]
    by blast
qed






text \<open>
  C9. Time alone frees nothing. On both servers the passing of any amount of time, a
  save by the timer and a read of the status leave the array as it is; a step that makes
  a checked-out unit available is a return request; and a run without a return request
  leaves a checked-out unit checked out.
\<close>

theorem C9_only_a_return_request_frees_a_unit:
  assumes "step = router_step E \<or> step = app_step E"
    and "n < length (ironBorrowing s)" and "\<not> available (ironBorrowing s ! n)"
  shows "ironBorrowing (step (Tick d) s) = ironBorrowing s \<and>
    ironBorrowing (step SaveAll s) = ironBorrowing s \<and>
    ironBorrowing (step GetIronBorrowing s) = ironBorrowing s \<and>
    (available (ironBorrowing (step e s) ! n) \<longrightarrow> is_return e) \<and>
    (list_all (\<lambda>e. \<not> is_return e) es \<longrightarrow> \<not> available (ironBorrowing (run step es s) ! n))"
proof -
  have quiet: "ironBorrowing (step (Tick d) s) = ironBorrowing s \<and>
      ironBorrowing (step SaveAll s) = ironBorrowing s \<and>
      ironBorrowing (step GetIronBorrowing s) = ironBorrowing s"
    using assms(1) by (auto simp: router_get_iron_borrowing_def app_get_iron_borrowing_def)
  have freed: "available (ironBorrowing (step e s) ! n) \<longrightarrow> is_return e"
    using assms router_step_keeps_borrowed [of e n s E] app_step_keeps_borrowed [of e n s E]
    by blast
  have kept: "list_all (\<lambda>e. \<not> is_return e) es \<longrightarrow> \<not> available (ironBorrowing (run step es s) ! n)"
    using assms router_run_keeps_borrowed [of es n s] app_run_keeps_borrowed [of es n s]
    by blast
  from quiet freed kept show ?thesis by blast
qed

theorem C9_only_a_return_request_frees_a_unit_witness:
  "0 < length (ironBorrowing
       \<lparr>ironBorrowing = [held_iron 2 ''Alice'' ''Room 101'' 1000 7201000], clock = 7201000\<rparr>) \<and>
   \<not> available (ironBorrowing
       \<lparr>ironBorrowing = [held_iron 2 ''Alice'' ''Room 101'' 1000 7201000], clock = 7201000\<rparr> ! 0) \<and>
   ironBorrowing (router_step idle_engine (Tick 86400000)
       \<lparr>ironBorrowing = [held_iron 2 ''Alice'' ''Room 101'' 1000 7201000], clock = 7201000\<rparr>) =
     ironBorrowing
       \<lparr>ironBorrowing = [held_iron 2 ''Alice'' ''Room 101'' 1000 7201000], clock = 7201000\<rparr> \<and>
   available (ironBorrowing (router_step idle_engine (PostReturn (request (JNum 2) JUndefined JUndefined JUndefined))
       \<lparr>ironBorrowing = [held_iron 2 ''Alice'' ''Room 101'' 1000 7201000], clock = 7201000\<rparr>) ! 0) \<and>
   is_return (PostReturn (request (JNum 2) JUndefined JUndefined JUndefined)) \<and>
   \<not> available (ironBorrowing (run (router_step idle_engine)
       [Tick 86400000, GetIronBorrowing, SaveAll,
        PostBorrow (request (JNum 2) (JStr ''Bob'') (JStr ''Room 102'') JUndefined)]
       \<lparr>ironBorrowing = [held_iron 2 ''Alice'' ''Room 101'' 1000 7201000], clock = 7201000\<rparr>) ! 0)"
proof -
  let ?s = "\<lparr>ironBorrowing = [held_iron 2 ''Alice'' ''Room 101'' 1000 7201000], clock = 7201000\<rparr>"
  let ?es = "[Tick 86400000, GetIronBorrowing, SaveAll,
        PostBorrow (request (JNum 2) (JStr ''Bob'') (JStr ''Room 102'') JUndefined)]"
  have server: "router_step idle_engine = router_step idle_engine \<or> router_step idle_engine = app_step idle_engine"
    by simp
  have pos: "0 < length (ironBorrowing ?s)"
    by simp
  have held: "\<not> available (ironBorrowing ?s ! 0)"
    by (simp add: held_iron_def)
  have freed: "available (ironBorrowing
      (router_step idle_engine (PostReturn (request (JNum 2) JUndefined JUndefined JUndefined)) ?s) ! 0)"
    by code_simp
  have quiet: "list_all (\<lambda>e. \<not> is_return e) ?es"
    by simp
  show ?thesis
    using pos held freed quiet
      C9_only_a_return_request_frees_a_unit [OF server pos held,
        where d = 86400000
          and e = "PostReturn (request (JNum 2) JUndefined JUndefined JUndefined)"
          and es = ?es]
    by blast
qed

text \<open>
  C10. Claimed: every borrow request to the router whose iron id is that of an iron is
  answered with 400, \<^verbatim>\<open>Iron is already borrowed\<close>. A request without a borrower name is
  turned away before the ledger is looked at, with another message (and so is one whose
  borrower name \<open>sanitizeInput\<close> empties, such as a blank).
\<close>

theorem C10_missing_borrower_name_counterexample:
  "find_iron (parseInt idle_engine (JNum 1)) [idle_iron 1] = Some (idle_iron 1) \<and>
   router_post_borrow idle_engine 1000 (request (JNum 1) JUndefined (JStr ''Room 101'') (JNum 2))
       [idle_iron 1] =
     (apiError ''Iron ID and borrower name are required'' 400, [idle_iron 1]) \<and>
   apiError ''Iron ID and borrower name are required'' 400 \<noteq>
     (apiError ''Iron is already borrowed'' 400 :: iron api_response)"
  by code_simp

text \<open>
  C10, amended. A borrow request to the router whose iron id and borrower name are
  truthy after \<open>sanitizeInput\<close> (which takes \<^verbatim>\<open><\<close> and \<^verbatim>\<open>>\<close> out of a string and trims
  it), and whose iron id \<^verbatim>\<open>parseInt\<close> turns into the number of an iron, is answered with
  400, \<^verbatim>\<open>Iron is already borrowed\<close>; when the iron was available the array then holds it
  as borrowed, otherwise the array is as before. No borrow request at all is answered
  with the success response.
\<close>

theorem C10_router_borrow_never_reports_success:
  assumes "find_iron (parseInt E (req_ironId (sanitizeInput r))) db = Some iron"
    and "truthy (req_ironId (sanitizeInput r))" and "truthy (req_borrowerName (sanitizeInput r))"
    and "held = iron\<lparr>available := False, borrowedBy := req_borrowerName (sanitizeInput r),
                      borrowedAt := JDate now,
                      returnBy := returnBy_date E now
                        (js_or (parseInt E (req_duration (sanitizeInput r))) (JNum 4)),
                      room := js_or (req_room (sanitizeInput r)) (JStr [])\<rparr>"
  shows "router_post_borrow E now r db =
      (apiError ''Iron is already borrowed'' 400,
       if available iron then assign_found (parseInt E (req_ironId (sanitizeInput r))) held db
       else db) \<and>
    (\<forall>E' t r' db' i m. fst (router_post_borrow E' t r' db') \<noteq> apiSuccess i m)"
proof -
  have never: "fst (router_post_borrow E' t r' db') \<noteq> apiSuccess i m" for E' t r' db' i m
    by (auto simp: router_post_borrow_def borrow_handler_def borrowIron_def Let_def
        split: option.splits)
  have "router_post_borrow E now r db =
      (apiError ''Iron is already borrowed'' 400,
       if available iron then assign_found (parseInt E (req_ironId (sanitizeInput r))) held db
       else db)"
    using assms
    by (cases "available iron")
      (simp_all add: router_post_borrow_def borrow_handler_def borrowIron_available
        borrowIron_unavailable)
  with never show ?thesis by blast
qed

theorem C10_router_borrow_never_reports_success_witness:
  "find_iron (parseInt idle_engine (req_ironId (sanitizeInput
       (request (JNum 2) (JStr ''Alice'') (JStr ''Room 101'') (JNum 2)))))
     [idle_iron 1, idle_iron 2, idle_iron 3] = Some (idle_iron 2) \<and>
   truthy (req_ironId (sanitizeInput (request (JNum 2) (JStr ''Alice'') (JStr ''Room 101'') (JNum 2)))) \<and>
   truthy (req_borrowerName (sanitizeInput
       (request (JNum 2) (JStr ''Alice'') (JStr ''Room 101'') (JNum 2)))) \<and>
   available (idle_iron 2) \<and>
   fst (router_post_borrow idle_engine 1000 (request (JNum 2) (JStr ''Alice'') (JStr ''Room 101'') (JNum 2))
       [idle_iron 1, idle_iron 2, idle_iron 3]) = apiError ''Iron is already borrowed'' 400 \<and>
   snd (router_post_borrow idle_engine 1000 (request (JNum 2) (JStr ''Alice'') (JStr ''Room 101'') (JNum 2))
       [idle_iron 1, idle_iron 2, idle_iron 3]) =
     [idle_iron 1, held_iron 2 ''Alice'' ''Room 101'' 1000 7201000, idle_iron 3]"
proof -
  let ?r = "request (JNum 2) (JStr ''Alice'') (JStr ''Room 101'') (JNum 2)"
  have san: "sanitizeInput ?r = ?r"
    by code_simp
  have found: "find_iron (parseInt idle_engine (req_ironId (sanitizeInput ?r)))
      [idle_iron 1, idle_iron 2, idle_iron 3] = Some (idle_iron 2)"
    by (simp add: san) (simp add: find_iron_def sample_defs safe_integer_def)
  have id: "truthy (req_ironId (sanitizeInput ?r))"
    by (simp add: san) (simp add: request_def)
  have name: "truthy (req_borrowerName (sanitizeInput ?r))"
    by (simp add: san) (simp add: request_def)
  have free: "available (idle_iron 2)"
    by (simp add: idle_iron_def)
  have held: "held_iron 2 ''Alice'' ''Room 101'' 1000 7201000 =
      (idle_iron 2)\<lparr>available := False, borrowedBy := req_borrowerName (sanitizeInput ?r),
        borrowedAt := JDate 1000,
        returnBy := returnBy_date idle_engine 1000
          (js_or (parseInt idle_engine (req_duration (sanitizeInput ?r))) (JNum 4)),
        room := js_or (req_room (sanitizeInput ?r)) (JStr [])\<rparr>"
    by (simp add: san)
      (simp add: sample_defs js_or_def returnBy_date_hours safe_integer_def date_after_def
        new_Date_def valid_time_def)
  have placed: "assign_found (parseInt idle_engine (req_ironId (sanitizeInput ?r)))
      (held_iron 2 ''Alice'' ''Room 101'' 1000 7201000) [idle_iron 1, idle_iron 2, idle_iron 3] =
      [idle_iron 1, held_iron 2 ''Alice'' ''Room 101'' 1000 7201000, idle_iron 3]"
    by (simp add: san) (simp add: sample_defs safe_integer_def)
  show ?thesis
    using found id name free placed
      C10_router_borrow_never_reports_success [OF found id name held]
    by simp
qed

end
